theory Spec2Isabelle
  imports Complex_Main
begin

section \<open>CalcAgent: the expression-reduction engine\<close>

text \<open>
  A shallow embedding of \<^verbatim>\<open>src/ustils.py\<close>, \<^verbatim>\<open>src/tools.py\<close> and the graph of
  \<^verbatim>\<open>src/graph.py\<close>. A Python \<^verbatim>\<open>str\<close> is modelled as a \<^typ>\<open>string\<close> whose characters are
  the code points below 256; Python integers are \<^typ>\<open>int\<close>, positions produced by the
  tokenizer are \<^typ>\<open>nat\<close>. Every exception the source can raise is a value of \<open>py_error\<close>.
\<close>

subsection \<open>Python primitives used by the source\<close>

datatype py_error =
    IndexError
  | KeyError
  | ValueError string
  | TypeError
  | OverflowError
  | CollaboratorError string

text \<open>\<^verbatim>\<open>str(e)\<close> for the exceptions whose text the source records: the index reads
  that can fail there are reads of a string.\<close>

fun str_exc :: "py_error \<Rightarrow> string" where
  "str_exc IndexError = ''string index out of range''"
| "str_exc KeyError = ''KeyError''"
| "str_exc (ValueError m) = m"
| "str_exc TypeError = ''TypeError''"
| "str_exc OverflowError = ''cannot convert float infinity to integer''"
| "str_exc (CollaboratorError m) = m"

text \<open>\<^verbatim>\<open>c.isdigit()\<close> and \<^verbatim>\<open>c.isspace()\<close> on the code points below 256. Python counts the
  superscripts U+00B2, U+00B3 and U+00B9 as digits; the regular expression class
  \<^verbatim>\<open>\d\<close> matches the decimal digits only.\<close>

definition is_decimal :: "char \<Rightarrow> bool" where
  "is_decimal c = (c \<in> set ''0123456789'')"

definition isdigit :: "char \<Rightarrow> bool" where
  "isdigit c = (is_decimal c \<or> c \<in> set [CHR 0xB2, CHR 0xB3, CHR 0xB9])"

definition isspace :: "char \<Rightarrow> bool" where
  "isspace c =
     (c \<in> set [CHR 0x09, CHR 0x0A, CHR 0x0B, CHR 0x0C, CHR 0x0D, CHR 0x1C, CHR 0x1D, CHR 0x1E,
                CHR 0x1F, CHR 0x20, CHR 0x85, CHR 0xA0])"

text \<open>\<^verbatim>\<open>c in "..."\<close> for a single character \<open>c\<close>\<close>

definition in_str :: "char \<Rightarrow> string \<Rightarrow> bool" where
  "in_str c s = (c \<in> set s)"

text \<open>\<^verbatim>\<open>s.strip()\<close>\<close>

definition strip :: "string \<Rightarrow> string" where
  "strip s = rev (dropWhile isspace (rev (dropWhile isspace s)))"

text \<open>\<^verbatim>\<open>s[i]\<close>, \<^verbatim>\<open>s[:n]\<close> and \<^verbatim>\<open>s[n:]\<close> for Python integers: a negative index counts from
  the end, an index out of range raises, a slice bound out of range is clipped.\<close>

definition py_index :: "'a list \<Rightarrow> int \<Rightarrow> py_error + 'a" where
  "py_index xs i =
     (if 0 \<le> i \<and> i < int (length xs) then Inr (xs ! nat i)
      else if i < 0 \<and> - int (length xs) \<le> i then Inr (xs ! nat (int (length xs) + i))
      else Inl IndexError)"

definition slice_to :: "'a list \<Rightarrow> int \<Rightarrow> 'a list" where
  "slice_to xs n = (if n < 0 then take (nat (int (length xs) + n)) xs else take (nat n) xs)"

definition slice_from :: "'a list \<Rightarrow> int \<Rightarrow> 'a list" where
  "slice_from xs n = (if n < 0 then drop (nat (int (length xs) + n)) xs else drop (nat n) xs)"

subsection \<open>Span rewriter (\<^verbatim>\<open>replace_span\<close>)\<close>

text \<open>
  \<^verbatim>\<open>start, end = span\<close> raises ValueError unless the list has two elements. The two
  index reads are evaluated left to right, the second only when the first finds an
  opening parenthesis (\<^verbatim>\<open>and\<close> short-circuits).
\<close>

definition replace_span :: "string \<Rightarrow> int list \<Rightarrow> string \<Rightarrow> py_error + string" where
  "replace_span expr spn replacement =
     (case spn of
        [start, end] \<Rightarrow>
          (let plain = Inr (slice_to expr start @ replacement @ slice_from expr end);
               wide = Inr (slice_to expr (start - 1) @ replacement @ slice_from expr (end + 1))
           in if start > 0 \<and> end < int (length expr) then
                (case py_index expr (start - 1) of
                   Inl e \<Rightarrow> Inl e
                 | Inr c1 \<Rightarrow>
                     if c1 = CHR ''('' then
                       (case py_index expr end of
                          Inl e \<Rightarrow> Inl e
                        | Inr c2 \<Rightarrow> if c2 = CHR '')'' then wide else plain)
                     else plain)
              else plain)
      | _ \<Rightarrow>
          Inl (ValueError
                 (if length spn < 2 then ''not enough values to unpack''
                  else ''too many values to unpack'')))"

subsection \<open>Tokenizer (\<^verbatim>\<open>parse_expression\<close>)\<close>

datatype token_type = Number | Operator

record token =
  tok_type :: token_type
  tok_value :: string
  tok_start :: nat
  tok_end :: nat

text \<open>\<^verbatim>\<open>while i < len(expr) and expr[i].isdigit(): i += 1\<close>\<close>

function skip_digits :: "string \<Rightarrow> nat \<Rightarrow> nat" where
  "skip_digits expr i =
     (if i < length expr \<and> isdigit (expr ! i) then skip_digits expr (i + 1) else i)"
  by pat_completeness auto
termination
  by (relation "measure (\<lambda>(expr, i). length expr - i)") auto

declare skip_digits.simps [simp del]

text \<open>The body of the number branch: the index after sign, integer part, fraction
  and exponent, starting from \<open>i\<close> (which is below \<open>length expr\<close>).\<close>

definition scan_number :: "string \<Rightarrow> nat \<Rightarrow> nat" where
  "scan_number expr i =
     (let i1 = (if in_str (expr ! i) ''+-'' then i + 1 else i);
          i2 = skip_digits expr i1;
          i3 = (if i2 < length expr \<and> expr ! i2 = CHR ''.'' then skip_digits expr (i2 + 1) else i2)
      in if i3 < length expr \<and> in_str (expr ! i3) ''eE'' then
           (let i4 = i3 + 1;
                i5 = (if i4 < length expr \<and> in_str (expr ! i4) ''+-'' then i4 + 1 else i4)
            in skip_digits expr i5)
         else i3)"

lemma skip_digits_ge: "i \<le> skip_digits expr i"
proof (induction expr i rule: skip_digits.induct)
  case (1 expr i)
  show ?case
  proof (cases "i < length expr \<and> isdigit (expr ! i)")
    case True
    with 1 have IH: "i + 1 \<le> skip_digits expr (i + 1)" by simp
    from True have "skip_digits expr i = skip_digits expr (i + 1)"
      by (simp add: skip_digits.simps [of expr i])
    with IH show ?thesis by linarith
  next
    case False
    then have "skip_digits expr i = i"
      by (auto simp add: skip_digits.simps [of expr i])
    then show ?thesis by simp
  qed
qed

lemma skip_digits_gt: "i < length expr \<Longrightarrow> isdigit (expr ! i) \<Longrightarrow> i < skip_digits expr i"
  using skip_digits_ge [of "i + 1" expr] by (simp add: skip_digits.simps [of expr i])

lemma scan_number_gt:
  assumes "i < length expr"
    and "isdigit (expr ! i) \<or> in_str (expr ! i) ''+-'' \<or> expr ! i = CHR ''.''"
  shows "i < scan_number expr i"
proof -
  define i1 where "i1 = (if in_str (expr ! i) ''+-'' then i + 1 else i)"
  define i2 where "i2 = skip_digits expr i1"
  define i3 where
    "i3 = (if i2 < length expr \<and> expr ! i2 = CHR ''.'' then skip_digits expr (i2 + 1) else i2)"
  have i1: "i \<le> i1" by (simp add: i1_def)
  have i2: "i1 \<le> i2" by (simp add: i2_def skip_digits_ge)
  have i3: "i2 \<le> i3"
    using skip_digits_ge [of "i2 + 1" expr] by (simp add: i3_def)
  have "i < i3"
  proof (cases "in_str (expr ! i) ''+-''")
    case True
    then have "i < i1" by (simp add: i1_def)
    with i2 i3 show ?thesis by linarith
  next
    case sign: False
    then have eq: "i1 = i" by (simp add: i1_def)
    show ?thesis
    proof (cases "isdigit (expr ! i)")
      case True
      with assms(1) have "i < i2" by (simp add: i2_def eq skip_digits_gt)
      with i3 show ?thesis by linarith
    next
      case False
      with sign assms(2) have dot: "expr ! i = CHR ''.''" by blast
      from False assms(1) have "i2 = i"
        unfolding i2_def eq by (simp add: skip_digits.simps [of expr i])
      with dot assms(1) have "i3 = skip_digits expr (i + 1)" by (simp add: i3_def)
      with skip_digits_ge [of "i + 1" expr] show ?thesis by linarith
    qed
  qed
  moreover have "i3 \<le> scan_number expr i"
  proof -
    have "scan_number expr i =
        (if i3 < length expr \<and> in_str (expr ! i3) ''eE'' then
           skip_digits expr (if i3 + 1 < length expr \<and> in_str (expr ! (i3 + 1)) ''+-''
                             then i3 + 1 + 1 else i3 + 1)
         else i3)"
      unfolding scan_number_def Let_def i3_def i2_def i1_def by simp
    moreover have "i3 \<le> skip_digits expr (i3 + 1 + 1)"
      using skip_digits_ge [of "i3 + 1 + 1" expr] by linarith
    moreover have "i3 \<le> skip_digits expr (i3 + 1)"
      using skip_digits_ge [of "i3 + 1" expr] by linarith
    ultimately show ?thesis by simp
  qed
  ultimately show ?thesis by linarith
qed

text \<open>One pass through the body of the main loop at index \<open>i\<close> (below \<open>length expr\<close>):
  the new index and the new token list. \<^verbatim>\<open>tokens[-1]\<close> is \<^term>\<open>last tokens\<close>, read only
  when the list is not empty.\<close>

definition parse_step :: "string \<Rightarrow> nat \<Rightarrow> token list \<Rightarrow> nat \<times> token list" where
  "parse_step expr i tokens =
     (if isspace (expr ! i) then (i + 1, tokens)
      else if in_str (expr ! i) ''+-*/'' \<and> tokens \<noteq> [] \<and> tok_type (last tokens) = Number then
        (i + 1, tokens @ [\<lparr>tok_type = Operator, tok_value = [expr ! i],
                             tok_start = i, tok_end = i + 1\<rparr>])
      else if isdigit (expr ! i) \<or> in_str (expr ! i) ''+-'' \<or> expr ! i = CHR ''.'' then
        (scan_number expr i,
         tokens @ [\<lparr>tok_type = Number,
                     tok_value = take (scan_number expr i - i) (drop i expr),
                     tok_start = i, tok_end = scan_number expr i\<rparr>])
      else if in_str (expr ! i) ''()'' then (i + 1, tokens)
      else (i + 1, tokens))"

lemma parse_step_gt:
  assumes "i < length expr"
  shows "i < fst (parse_step expr i tokens)"
  using scan_number_gt [OF assms] by (simp add: parse_step_def)

text \<open>\<^verbatim>\<open>while i < len(expr): ...\<close>\<close>

function parse_loop :: "string \<Rightarrow> nat \<Rightarrow> token list \<Rightarrow> token list" where
  "parse_loop expr i tokens =
     (if i < length expr then
        parse_loop expr (fst (parse_step expr i tokens)) (snd (parse_step expr i tokens))
      else tokens)"
  by pat_completeness auto
termination
proof (relation "measure (\<lambda>(expr, i, tokens). length expr - i)")
  show "wf (measure (\<lambda>(expr, i, tokens). length expr - i))" by simp
next
  fix expr :: string and i :: nat and tokens :: "token list"
  assume "i < length expr"
  then show "((expr, fst (parse_step expr i tokens), snd (parse_step expr i tokens)),
      expr, i, tokens) \<in> measure (\<lambda>(expr, i, tokens). length expr - i)"
    using parse_step_gt [of i expr tokens] by (simp add: case_prod_beta)
qed

declare parse_loop.simps [simp del]

definition parse_expression :: "string \<Rightarrow> token list" where
  "parse_expression expr = parse_loop (strip expr) 0 []"

subsection \<open>Number test (\<^verbatim>\<open>is_single_number\<close>)\<close>

text \<open>
  The regular expression \<^verbatim>\<open>^[+-]?(\d+\.?\d*|\d*\.?\d+)([eE][+-]?\d+)?$\<close>, matched against
  the whole string: an optional sign, a mantissa of decimal digits with at most one dot
  and at least one digit, and an optional exponent with at least one digit. Each part of
  the pattern starts with a character no other part accepts, so the longest-match scan
  below recognises the same strings.
\<close>

definition number_pattern :: "string \<Rightarrow> bool" where
  "number_pattern s =
     (let s1 = (if s \<noteq> [] \<and> in_str (hd s) ''+-'' then tl s else s);
          d1 = takeWhile is_decimal s1;
          r1 = dropWhile is_decimal s1;
          r2 = (if r1 \<noteq> [] \<and> hd r1 = CHR ''.'' then tl r1 else r1);
          d2 = takeWhile is_decimal r2;
          r3 = dropWhile is_decimal r2
      in (d1 \<noteq> [] \<or> d2 \<noteq> []) \<and>
         (r3 = [] \<or>
          (in_str (hd r3) ''eE'' \<and>
           (let r4 = tl r3;
                r5 = (if r4 \<noteq> [] \<and> in_str (hd r4) ''+-'' then tl r4 else r4)
            in r5 \<noteq> [] \<and> list_all is_decimal r5))))"

definition is_single_number :: "string \<Rightarrow> bool" where
  "is_single_number expr =
     (let expr = strip expr in if expr = [] then False else number_pattern expr)"

subsection \<open>Precedence resolver (\<^verbatim>\<open>find_next_operation\<close>)\<close>

definition OPERATOR_PRIORITY :: "string \<rightharpoonup> int" where
  "OPERATOR_PRIORITY = map_of [(''+'', 1), (''-'', 1), (''*'', 2), (''/'', 2)]"

definition OPERATOR_TO_TOOL :: "string \<rightharpoonup> string" where
  "OPERATOR_TO_TOOL = map_of [(''+'', ''add''), (''-'', ''sub''), (''*'', ''mul''), (''/'', ''div'')]"

record operation =
  op_operator :: string
  op_lhs :: string
  op_rhs :: string
  op_span :: "int list"
  op_tool :: string

text \<open>The loop \<^verbatim>\<open>for i, token in enumerate(tokens)\<close>, from index \<open>i\<close> on, with the
  pair \<^verbatim>\<open>(best_op_idx, best_priority)\<close> as its state.\<close>

fun scan_operators :: "token list \<Rightarrow> nat \<Rightarrow> nat option \<times> int \<Rightarrow> nat option \<times> int" where
  "scan_operators [] i best = best"
| "scan_operators (token # rest) i (best_op_idx, best_priority) =
     (if tok_type token = Operator then
        (let priority = (case OPERATOR_PRIORITY (tok_value token) of Some p \<Rightarrow> p | None \<Rightarrow> 0)
         in if priority > best_priority then scan_operators rest (i + 1) (Some i, priority)
            else scan_operators rest (i + 1) (best_op_idx, best_priority))
      else scan_operators rest (i + 1) (best_op_idx, best_priority))"

text \<open>
  \<^verbatim>\<open>tokens[best_op_idx - 1]\<close> and \<^verbatim>\<open>tokens[best_op_idx + 1]\<close> are Python index reads: the
  first wraps to the last token when \<^verbatim>\<open>best_op_idx\<close> is 0, the second raises IndexError
  when the chosen operator is the last token. \<^verbatim>\<open>OPERATOR_TO_TOOL[...]\<close> raises KeyError
  for an unknown operator text. The parameter \<^verbatim>\<open>original_expr\<close> is not read.
\<close>

definition find_next_operation :: "token list \<Rightarrow> string \<Rightarrow> py_error + operation option" where
  "find_next_operation tokens original_expr =
     (if length tokens < 3 then Inr None
      else
        (case fst (scan_operators tokens 0 (None, -1)) of
           None \<Rightarrow> Inr None
         | Some best_op_idx \<Rightarrow>
             (case py_index tokens (int best_op_idx) of
                Inl e \<Rightarrow> Inl e
              | Inr op_token \<Rightarrow>
                  (case py_index tokens (int best_op_idx - 1) of
                     Inl e \<Rightarrow> Inl e
                   | Inr lhs_token \<Rightarrow>
                       (case py_index tokens (int best_op_idx + 1) of
                          Inl e \<Rightarrow> Inl e
                        | Inr rhs_token \<Rightarrow>
                            (case OPERATOR_TO_TOOL (tok_value op_token) of
                               None \<Rightarrow> Inl KeyError
                             | Some tool \<Rightarrow>
                                 Inr (Some \<lparr>op_operator = tok_value op_token,
                                            op_lhs = tok_value lhs_token,
                                            op_rhs = tok_value rhs_token,
                                            op_span = [int (tok_start lhs_token),
                                                       int (tok_end rhs_token)],
                                            op_tool = tool\<rparr>)))))))"

subsection \<open>Floats\<close>

text \<open>
  A Python \<^verbatim>\<open>float\<close> is an IEEE 754 binary64 value: a finite value is modelled by the
  rational number it denotes (the sign of zero is not kept: no function below
  distinguishes the two zeros). Arithmetic computes the exact result and rounds it to
  the nearest binary64 value, ties to even; results of magnitude \<open>2 ^ 1024\<close> or more
  after rounding are infinite.
\<close>

datatype pyfloat = Finite rat | PosInf | NegInf | NaN

definition pow :: "int \<Rightarrow> int \<Rightarrow> rat" where
  "pow b k = (if k \<ge> 0 then of_int (b ^ nat k) else 1 / of_int (b ^ nat (- k)))"

text \<open>\<open>floor_log b a\<close> is the integer \<open>e\<close> with \<open>b ^ e \<le> a < b ^ (e + 1)\<close>, for \<open>a > 0\<close> and
  \<open>b \<ge> 2\<close>; \<open>floor_log_int b n\<close> is the same for an integer \<open>n \<ge> 1\<close>.\<close>

function floor_log_int :: "int \<Rightarrow> int \<Rightarrow> int" where
  "floor_log_int b n = (if b < 2 \<or> n < b then 0 else 1 + floor_log_int b (n div b))"
  by pat_completeness auto
termination
proof (relation "measure (\<lambda>(b, n). nat n)")
  show "wf (measure (\<lambda>(b, n). nat n))" by simp
next
  fix b n :: int
  assume "\<not> (b < 2 \<or> n < b)"
  then have "2 \<le> b" and "b \<le> n" by simp_all
  then have "n div b < n" by (simp add: int_div_less_self)
  with \<open>2 \<le> b\<close> \<open>b \<le> n\<close> show "((b, n div b), b, n) \<in> measure (\<lambda>(b, n). nat n)" by simp
qed

declare floor_log_int.simps [simp del]

definition floor_log :: "int \<Rightarrow> rat \<Rightarrow> int" where
  "floor_log b a =
     (if a \<ge> 1 then floor_log_int b \<lfloor>a\<rfloor>
      else - (1 + floor_log_int b (\<lceil>1 / a\<rceil> - 1)))"

definition round_half_even :: "rat \<Rightarrow> int" where
  "round_half_even q =
     (let f = \<lfloor>q\<rfloor>; r = q - of_int f
      in if r < 1 / 2 then f else if r > 1 / 2 then f + 1 else if even f then f else f + 1)"

definition binary64 :: "rat \<Rightarrow> pyfloat" where
  "binary64 q =
     (if q = 0 then Finite 0
      else
        (let a = \<bar>q\<bar>;
             e = max (floor_log 2 a) (- 1022);
             m = round_half_even (a / pow 2 (e - 52));
             v = of_int m * pow 2 (e - 52)
         in if v \<ge> of_int (2 ^ 1024) then (if q > 0 then PosInf else NegInf)
            else Finite (if q > 0 then v else - v)))"

text \<open>\<^verbatim>\<open>lhs + rhs\<close>, \<^verbatim>\<open>lhs - rhs\<close>, \<^verbatim>\<open>lhs * rhs\<close> and \<^verbatim>\<open>lhs / rhs\<close> on floats. The division
  is only used with a divisor that is not zero.\<close>

fun float_neg :: "pyfloat \<Rightarrow> pyfloat" where
  "float_neg (Finite x) = Finite (- x)"
| "float_neg PosInf = NegInf"
| "float_neg NegInf = PosInf"
| "float_neg NaN = NaN"

fun float_add :: "pyfloat \<Rightarrow> pyfloat \<Rightarrow> pyfloat" where
  "float_add (Finite x) (Finite y) = binary64 (x + y)"
| "float_add NaN _ = NaN"
| "float_add _ NaN = NaN"
| "float_add PosInf NegInf = NaN"
| "float_add NegInf PosInf = NaN"
| "float_add PosInf _ = PosInf"
| "float_add NegInf _ = NegInf"
| "float_add _ PosInf = PosInf"
| "float_add _ NegInf = NegInf"

definition float_sub :: "pyfloat \<Rightarrow> pyfloat \<Rightarrow> pyfloat" where
  "float_sub x y = float_add x (float_neg y)"

definition float_sign :: "pyfloat \<Rightarrow> int" where
  "float_sign x = (case x of Finite q \<Rightarrow> sgn \<lfloor>q * 2 ^ 1074\<rfloor> | PosInf \<Rightarrow> 1 | NegInf \<Rightarrow> - 1 | NaN \<Rightarrow> 0)"

fun float_mul :: "pyfloat \<Rightarrow> pyfloat \<Rightarrow> pyfloat" where
  "float_mul (Finite x) (Finite y) = binary64 (x * y)"
| "float_mul NaN _ = NaN"
| "float_mul _ NaN = NaN"
| "float_mul x y =
     (if float_sign x * float_sign y > 0 then PosInf
      else if float_sign x * float_sign y < 0 then NegInf else NaN)"

fun float_div :: "pyfloat \<Rightarrow> pyfloat \<Rightarrow> pyfloat" where
  "float_div (Finite x) (Finite y) = binary64 (x / y)"
| "float_div NaN _ = NaN"
| "float_div _ NaN = NaN"
| "float_div (Finite x) _ = Finite 0"
| "float_div x (Finite y) =
     (if float_sign x * (if y < 0 then - 1 else 1) > 0 then PosInf else NegInf)"
| "float_div _ _ = NaN"

text \<open>\<^verbatim>\<open>rhs == 0\<close>\<close>

definition float_is_zero :: "pyfloat \<Rightarrow> bool" where
  "float_is_zero x = (x = Finite 0)"

subsection \<open>Number formatter (\<^verbatim>\<open>format_number\<close>)\<close>

text \<open>\<^verbatim>\<open>str(n)\<close> for an integer: decimal digits, with a minus sign when negative.\<close>

definition digit_char :: "int \<Rightarrow> char" where
  "digit_char d = ''0123456789'' ! nat d"

function str_nat :: "int \<Rightarrow> string" where
  "str_nat n = (if n < 10 then [digit_char n] else str_nat (n div 10) @ [digit_char (n mod 10)])"
  by pat_completeness auto
termination
proof (relation "measure nat")
  show "wf (measure nat)" by simp
next
  fix n :: int
  assume "\<not> n < 10"
  then have "n div 10 < n" by (simp add: int_div_less_self)
  with \<open>\<not> n < 10\<close> show "(n div 10, n) \<in> measure nat" by simp
qed

declare str_nat.simps [simp del]

definition str_int :: "int \<Rightarrow> string" where
  "str_int n = (if n < 0 then CHR ''-'' # str_nat (- n) else str_nat n)"

text \<open>\<^verbatim>\<open>int(value)\<close> truncates towards zero.\<close>

definition trunc :: "rat \<Rightarrow> int" where
  "trunc q = (if q \<ge> 0 then \<lfloor>q\<rfloor> else \<lceil>q\<rceil>)"

text \<open>
  \<^verbatim>\<open>f"{value:g}"\<close> for a finite value that is not zero: the value is rounded to 6
  significant digits (ties to even, on the exact value); with \<open>e\<close> the decimal exponent
  of the rounded value, the fixed notation is used when \<open>-4 \<le> e < 6\<close> and the scientific
  notation otherwise (exponent with a sign and at least two digits); trailing zeros of
  the fraction are removed, and the dot with them when no digit remains.
\<close>

definition strip_zeros :: "string \<Rightarrow> string" where
  "strip_zeros ds = rev (dropWhile (\<lambda>c. c = CHR ''0'') (rev ds))"

definition with_fraction :: "string \<Rightarrow> string \<Rightarrow> string" where
  "with_fraction ip fr = (if strip_zeros fr = [] then ip else ip @ CHR ''.'' # strip_zeros fr)"

definition format_g :: "rat \<Rightarrow> string" where
  "format_g q =
     (let a = \<bar>q\<bar>;
          e0 = floor_log 10 a;
          m0 = round_half_even (a / pow 10 (e0 - 5));
          m = (if m0 = 1000000 then 100000 else m0);
          e = (if m0 = 1000000 then e0 + 1 else e0);
          ds = str_nat m;
          sign = (if q < 0 then [CHR ''-''] else [])
      in if - 4 \<le> e \<and> e < 6 then
           (if e \<ge> 0 then sign @ with_fraction (take (nat e + 1) ds) (drop (nat e + 1) ds)
            else sign @ with_fraction [CHR ''0''] (replicate (nat (- e - 1)) CHR ''0'' @ ds))
         else
           sign @ with_fraction (take 1 ds) (drop 1 ds) @ [CHR ''e''] @
             (if e < 0 then [CHR ''-''] else [CHR ''+'']) @
             (if \<bar>e\<bar> < 10 then [CHR ''0''] else []) @ str_nat \<bar>e\<bar>)"

text \<open>\<^verbatim>\<open>int(value)\<close> raises OverflowError on an infinity and ValueError on a NaN.\<close>

definition format_number :: "pyfloat \<Rightarrow> py_error + string" where
  "format_number v =
     (case v of
        Finite q \<Rightarrow> if q = of_int (trunc q) then Inr (str_int (trunc q)) else Inr (format_g q)
      | PosInf \<Rightarrow> Inl OverflowError
      | NegInf \<Rightarrow> Inl OverflowError
      | NaN \<Rightarrow> Inl (ValueError ''cannot convert float NaN to integer''))"

subsection \<open>Reading a number literal\<close>

text \<open>
  \<^verbatim>\<open>float(s)\<close> on the texts of the number grammar of \<^const>\<open>number_pattern\<close>, surrounding
  white space removed: the exact decimal value, rounded to binary64. The other texts
  Python accepts (\<^verbatim>\<open>inf\<close>, \<^verbatim>\<open>nan\<close>, digits grouped with underscores) do not occur in
  what the tokenizer or the formatter produce; they are rejected here.
\<close>

definition digit_value :: "char \<Rightarrow> int" where
  "digit_value c = int (length (takeWhile (\<lambda>d. d \<noteq> c) ''0123456789''))"

definition digits_value :: "string \<Rightarrow> int" where
  "digits_value ds = foldl (\<lambda>acc c. 10 * acc + digit_value c) 0 ds"

definition literal_value :: "string \<Rightarrow> rat" where
  "literal_value s =
     (let neg = (s \<noteq> [] \<and> hd s = CHR ''-'');
          s1 = (if s \<noteq> [] \<and> in_str (hd s) ''+-'' then tl s else s);
          d1 = takeWhile is_decimal s1;
          r1 = dropWhile is_decimal s1;
          r2 = (if r1 \<noteq> [] \<and> hd r1 = CHR ''.'' then tl r1 else r1);
          d2 = takeWhile is_decimal r2;
          r3 = dropWhile is_decimal r2;
          r4 = (if r3 = [] then [] else tl r3);
          eneg = (r4 \<noteq> [] \<and> hd r4 = CHR ''-'');
          r5 = (if r4 \<noteq> [] \<and> in_str (hd r4) ''+-'' then tl r4 else r4);
          ex = (if eneg then - digits_value r5 else digits_value r5);
          mant = of_int (digits_value (d1 @ d2)) * pow 10 (ex - int (length d2))
      in if neg then - mant else mant)"

definition py_float :: "string \<Rightarrow> pyfloat option" where
  "py_float s =
     (if number_pattern (strip s) then Some (binary64 (literal_value (strip s))) else None)"

subsection \<open>Calculation tools (\<^verbatim>\<open>src/tools.py\<close>)\<close>

text \<open>
  A tool returns a dictionary with the key \<^verbatim>\<open>"value"\<close> or the key \<^verbatim>\<open>"error"\<close>. The
  dictionaries that reach \<^verbatim>\<open>update_node\<close> are read at these two keys only:
  \<open>tr_error\<close> is the entry at \<^verbatim>\<open>"error"\<close> when the key is present (a text),
  \<open>tr_value\<close> the entry at \<^verbatim>\<open>"value"\<close> when the key is present. An entry at
  \<^verbatim>\<open>"value"\<close> is null, something \<^verbatim>\<open>float()\<close> converts (with the float it gives), or
  something \<^verbatim>\<open>float()\<close> rejects (with its printed form).
\<close>

datatype jval = JNull | JNum pyfloat | JBad string

record tool_result =
  tr_error :: "string option"
  tr_value :: "jval option"

definition value_result :: "pyfloat \<Rightarrow> tool_result" where
  "value_result v = \<lparr>tr_error = None, tr_value = Some (JNum v)\<rparr>"

definition error_result :: "string \<Rightarrow> tool_result" where
  "error_result m = \<lparr>tr_error = Some m, tr_value = None\<rparr>"

definition add :: "pyfloat \<Rightarrow> pyfloat \<Rightarrow> tool_result" where
  "add lhs rhs = value_result (float_add lhs rhs)"

definition sub :: "pyfloat \<Rightarrow> pyfloat \<Rightarrow> tool_result" where
  "sub lhs rhs = value_result (float_sub lhs rhs)"

definition mul :: "pyfloat \<Rightarrow> pyfloat \<Rightarrow> tool_result" where
  "mul lhs rhs = value_result (float_mul lhs rhs)"

text \<open>The tool \<^verbatim>\<open>div\<close> (the name \<open>div\<close> is taken by integer division).\<close>

definition div_tool :: "pyfloat \<Rightarrow> pyfloat \<Rightarrow> tool_result" where
  "div_tool lhs rhs =
     (if float_is_zero rhs then error_result ''division by zero''
      else value_result (float_div lhs rhs))"

definition CALC_TOOLS :: "string \<rightharpoonup> (pyfloat \<Rightarrow> pyfloat \<Rightarrow> tool_result)" where
  "CALC_TOOLS = map_of [(''add'', add), (''sub'', sub), (''mul'', mul), (''div'', div_tool)]"

subsection \<open>State and messages (\<^verbatim>\<open>src/state.py\<close>)\<close>

text \<open>
  The content of a \<^verbatim>\<open>ToolMessage\<close> is a text; \<^verbatim>\<open>update_node\<close> reads it through
  \<^verbatim>\<open>json.loads\<close> only, so it is modelled by what \<^verbatim>\<open>json.loads\<close> makes of it: a failure
  (with the text), a value that is not a dictionary, or a dictionary.
\<close>

datatype tool_content = NotJson string | JsonNonDict | JsonDict tool_result

record tool_call =
  tc_name :: string
  tc_lhs :: pyfloat
  tc_rhs :: pyfloat

datatype message = HumanMessage string | AIMessage "tool_call list" | ToolMessage tool_content

text \<open>\<^verbatim>\<open>CalcState\<close>: a key that is absent reads as \<^verbatim>\<open>None\<close> through \<^verbatim>\<open>state.get\<close>.
  The field \<open>spn\<close> is the key \<^verbatim>\<open>"span"\<close>.\<close>

record calc_state =
  expression :: "string list"
  messages :: "message list"
  operator :: "string option"
  lhs :: "string option"
  rhs :: "string option"
  spn :: "int list option"
  tool :: "string option"
  error :: "string option"

text \<open>Truth value of an optional text (\<^verbatim>\<open>if state.get("error")\<close>): \<^verbatim>\<open>None\<close> and the
  empty text are false. In \<^verbatim>\<open>update_node\<close>, \<^verbatim>\<open>if span\<close> is false for \<^verbatim>\<open>None\<close> and for the
  empty list.\<close>

definition truthy :: "'a list option \<Rightarrow> bool" where
  "truthy x = (case x of None \<Rightarrow> False | Some v \<Rightarrow> v \<noteq> [])"

subsection \<open>Nodes of the graph (\<^verbatim>\<open>src/graph.py\<close>)\<close>

text \<open>What the caller passes at the key \<^verbatim>\<open>"expression"\<close>: nothing, a bare text or a list.\<close>

datatype expression_input = Missing | Bare string | Snapshots "string list"

definition start_node :: "expression_input \<Rightarrow> string list" where
  "start_node given =
     (case given of
        Bare text \<Rightarrow> [text]
      | Missing \<Rightarrow> [''0'']
      | Snapshots xs \<Rightarrow> if xs = [] then [''0''] else xs)"

text \<open>
  The judge is a language model: \<open>judge_llm\<close> stands for the call
  \<^verbatim>\<open>judge_llm.invoke\<close> followed by \<^verbatim>\<open>json.loads\<close> and the five \<^verbatim>\<open>result.get\<close>, on the
  current expression. Everything in the \<^verbatim>\<open>try\<close> block that raises gives \<open>JudgeRaised\<close>
  with the text of the exception.
\<close>

record decision =
  d_operator :: "string option"
  d_lhs :: "string option"
  d_rhs :: "string option"
  d_span :: "int list option"
  d_tool :: "string option"

datatype judge_reply = JudgeRaised string | JudgeResult decision

definition judge_node :: "(string \<Rightarrow> judge_reply) \<Rightarrow> calc_state \<Rightarrow> calc_state" where
  "judge_node judge_llm state =
     (let expression_list = expression state
      in if expression_list = [] then state\<lparr>error := Some ''expression is empty''\<rparr>
         else
           (let cur_expr = last expression_list
            in if is_single_number cur_expr then state
               else
                 (case judge_llm cur_expr of
                    JudgeResult result \<Rightarrow>
                      state\<lparr>operator := d_operator result, lhs := d_lhs result,
                             rhs := d_rhs result, spn := d_span result,
                             tool := d_tool result\<rparr>
                  | JudgeRaised e \<Rightarrow> state\<lparr>error := Some (''judge_node failed: '' @ e)\<rparr>)))"

text \<open>
  \<open>calc_llm\<close> stands for \<^verbatim>\<open>calc_llm.invoke\<close> on the prompt built from \<^verbatim>\<open>lhs\<close>,
  \<^verbatim>\<open>operator\<close> and \<^verbatim>\<open>rhs\<close>: it raises, or answers with a message carrying tool calls.
  The call is not inside a \<^verbatim>\<open>try\<close> block.
\<close>

definition calc_node ::
  "(string option \<Rightarrow> string \<Rightarrow> string option \<Rightarrow> py_error + tool_call list) \<Rightarrow>
   calc_state \<Rightarrow> py_error + calc_state" where
  "calc_node calc_llm state =
     (case operator state of
        None \<Rightarrow> Inr (state\<lparr>error := Some ''no operator found''\<rparr>)
      | Some op \<Rightarrow>
          if op = [] then Inr (state\<lparr>error := Some ''no operator found''\<rparr>)
          else
            (case calc_llm (lhs state) op (rhs state) of
               Inl e \<Rightarrow> Inl e
             | Inr calls \<Rightarrow> Inr (state\<lparr>messages := messages state @ [AIMessage calls]\<rparr>)))"

text \<open>
  \<^verbatim>\<open>tool_node_executor = ToolNode(CALC_TOOLS)\<close> is the prebuilt node of the framework: it
  runs every tool call of the last message, which has to be an \<^verbatim>\<open>AIMessage\<close>, and appends
  one \<^verbatim>\<open>ToolMessage\<close> per call. The content of the message is the result of the tool as
  JSON; for a name that is not in \<^verbatim>\<open>CALC_TOOLS\<close> it is an error text, which is not JSON.
\<close>

definition run_tool :: "tool_call \<Rightarrow> message" where
  "run_tool call =
     (case CALC_TOOLS (tc_name call) of
        Some f \<Rightarrow> ToolMessage (JsonDict (f (tc_lhs call) (tc_rhs call)))
      | None \<Rightarrow> ToolMessage (NotJson (''Error: '' @ tc_name call @ '' is not a valid tool'')))"

definition tool_node :: "calc_state \<Rightarrow> py_error + calc_state" where
  "tool_node state =
     (if messages state = [] then Inl (ValueError ''No message found in input'')
      else
        (case last (messages state) of
           AIMessage calls \<Rightarrow> Inr (state\<lparr>messages := messages state @ map run_tool calls\<rparr>)
         | _ \<Rightarrow> Inl (ValueError ''Last message is not an AIMessage'')))"

text \<open>
  \<^verbatim>\<open>update_node\<close>. The reads \<^verbatim>\<open>"error" in tool_result\<close> and \<^verbatim>\<open>tool_result.get\<close> raise
  on a value that is not a dictionary, \<^verbatim>\<open>format_number\<close> is called outside every
  \<^verbatim>\<open>try\<close> block and \<^verbatim>\<open>expression_list[-1]\<close> raises on an empty list: these exceptions
  leave the node (\<open>Inl\<close>). An exception of \<^verbatim>\<open>replace_span\<close> is caught and recorded.
\<close>

definition missing_value :: string where
  "missing_value = ''tool result missing '' @ [CHR 0x27] @ ''value'' @ [CHR 0x27]"

definition update_node :: "calc_state \<Rightarrow> py_error + calc_state" where
  "update_node state =
     (if messages state = [] then Inr (state\<lparr>error := Some ''no messages found''\<rparr>)
      else
        (case last (messages state) of
           ToolMessage content \<Rightarrow>
             (case content of
                NotJson text \<Rightarrow>
                  Inr (state\<lparr>error := Some (''failed to parse tool result: '' @ text)\<rparr>)
              | JsonNonDict \<Rightarrow> Inl TypeError
              | JsonDict tool_result \<Rightarrow>
                  (case tr_error tool_result of
                     Some e \<Rightarrow> Inr (state\<lparr>error := Some e\<rparr>)
                   | None \<Rightarrow>
                       (case tr_value tool_result of
                          None \<Rightarrow> Inr (state\<lparr>error := Some missing_value\<rparr>)
                        | Some JNull \<Rightarrow> Inr (state\<lparr>error := Some missing_value\<rparr>)
                        | Some (JBad text) \<Rightarrow>
                            Inr (state\<lparr>error := Some (''invalid value: '' @ text)\<rparr>)
                        | Some (JNum value_float) \<Rightarrow>
                            (case format_number value_float of
                               Inl e \<Rightarrow> Inl e
                             | Inr value_str \<Rightarrow>
                                 (let expression_list = expression state
                                  in if expression_list = [] then Inl IndexError
                                     else
                                       (let cur_expr = last expression_list
                                        in case (case spn state of
                                                   None \<Rightarrow> Inr value_str
                                                 | Some sp \<Rightarrow>
                                                     if sp = [] then Inr value_str
                                                     else replace_span cur_expr sp value_str) of
                                             Inl e \<Rightarrow>
                                               Inr (state\<lparr>error :=
                                                      Some (''expression update failed: '' @ str_exc e)\<rparr>)
                                           | Inr new_expr \<Rightarrow>
                                               Inr (state\<lparr>expression := expression_list @ [new_expr],
                                                          operator := None, lhs := None, rhs := None,
                                                          spn := None, tool := None\<rparr>)))))))
         | _ \<Rightarrow> Inr (state\<lparr>error := Some ''last message is not a ToolMessage''\<rparr>)))"

subsection \<open>Conditional edges and the compiled graph\<close>

datatype route = To_calc_node | To_judge_node | To_end

definition route_after_judge :: "calc_state \<Rightarrow> route" where
  "route_after_judge state =
     (if truthy (error state) then To_end
      else if expression state \<noteq> [] \<and> is_single_number (last (expression state)) then To_end
      else if truthy (operator state) then To_calc_node
      else To_end)"

definition route_after_update :: "calc_state \<Rightarrow> route" where
  "route_after_update state = (if truthy (error state) then To_end else To_judge_node)"

text \<open>
  \<^verbatim>\<open>build_calc_graph\<close>: the edges \<^verbatim>\<open>judge_node\<close> \<open>\<rightarrow>\<close> (\<^verbatim>\<open>route_after_judge\<close>) \<open>\<rightarrow>\<close>
  \<^verbatim>\<open>calc_node\<close> \<open>\<rightarrow>\<close> \<^verbatim>\<open>tool_node\<close> \<open>\<rightarrow>\<close> \<^verbatim>\<open>update_node\<close> \<open>\<rightarrow>\<close> (\<^verbatim>\<open>route_after_update\<close>) \<open>\<rightarrow>\<close>
  \<^verbatim>\<open>judge_node\<close>, followed from \<^verbatim>\<open>judge_node\<close> on. The graph holds no counter and reads
  no step limit (\<^verbatim>\<open>config.MAX_STEPS\<close> is not mentioned in \<^verbatim>\<open>graph.py\<close>), so the walk may
  go on forever: the result is \<open>None\<close> then, \<open>Some (Inl e)\<close> when the exception \<open>e\<close>
  leaves a node, and \<open>Some (Inr state)\<close> when the walk reaches \<^verbatim>\<open>END\<close>.
\<close>

partial_function (option) run_graph ::
  "(string \<Rightarrow> judge_reply) \<Rightarrow>
   (string option \<Rightarrow> string \<Rightarrow> string option \<Rightarrow> py_error + tool_call list) \<Rightarrow>
   calc_state \<Rightarrow> (py_error + calc_state) option" where
  "run_graph judge_llm calc_llm state =
     (let judged = judge_node judge_llm state
      in case route_after_judge judged of
           To_calc_node \<Rightarrow>
             (case calc_node calc_llm judged of
                Inl e \<Rightarrow> Some (Inl e)
              | Inr called \<Rightarrow>
                  (case tool_node called of
                     Inl e \<Rightarrow> Some (Inl e)
                   | Inr computed \<Rightarrow>
                       (case update_node computed of
                          Inl e \<Rightarrow> Some (Inl e)
                        | Inr updated \<Rightarrow>
                            (case route_after_update updated of
                               To_judge_node \<Rightarrow> run_graph judge_llm calc_llm updated
                             | _ \<Rightarrow> Some (Inr updated)))))
         | _ \<Rightarrow> Some (Inr judged))"

text \<open>\<^verbatim>\<open>graph.invoke({"expression": expr})\<close>: every other key of the state is absent.\<close>

declare run_graph.simps [code]

definition initial_state :: "string list \<Rightarrow> calc_state" where
  "initial_state snapshots =
     \<lparr>expression = snapshots, messages = [], operator = None, lhs = None, rhs = None,
      spn = None, tool = None, error = None\<rparr>"

definition invoke ::
  "(string \<Rightarrow> judge_reply) \<Rightarrow>
   (string option \<Rightarrow> string \<Rightarrow> string option \<Rightarrow> py_error + tool_call list) \<Rightarrow>
   expression_input \<Rightarrow> (py_error + calc_state) option" where
  "invoke judge_llm calc_llm given = run_graph judge_llm calc_llm (initial_state (start_node given))"

subsection \<open>Deterministic collaborators\<close>

text \<open>
  Modelled from the spec: the repository's judge and calculator are language models
  behind \<^verbatim>\<open>judge_llm.invoke\<close> and \<^verbatim>\<open>calc_llm.invoke\<close>; the specification (sections 6
  and 9) allows a deterministic implementation that reuses the precedence resolver and
  the tools. \<open>resolver_judge\<close> answers with the operation \<^const>\<open>find_next_operation\<close>
  selects on the tokens of the current expression, with every field empty when the
  resolver returns \<^verbatim>\<open>None\<close>, and fails with the resolver's exception.
  \<open>direct_calc\<close> answers with the one call of the tool named by
  \<^const>\<open>OPERATOR_TO_TOOL\<close> on the operands read as floats, and fails when an operand is
  not a number literal or the operator is unknown.
\<close>

definition resolver_judge :: "string \<Rightarrow> judge_reply" where
  "resolver_judge cur_expr =
     (case find_next_operation (parse_expression cur_expr) cur_expr of
        Inl e \<Rightarrow> JudgeRaised (case e of IndexError \<Rightarrow> ''list index out of range'' | _ \<Rightarrow> str_exc e)
      | Inr None \<Rightarrow>
          JudgeResult \<lparr>d_operator = None, d_lhs = None, d_rhs = None, d_span = None, d_tool = None\<rparr>
      | Inr (Some opn) \<Rightarrow>
          JudgeResult \<lparr>d_operator = Some (op_operator opn), d_lhs = Some (op_lhs opn),
                       d_rhs = Some (op_rhs opn), d_span = Some (op_span opn),
                       d_tool = Some (op_tool opn)\<rparr>)"

definition direct_calc :: "string option \<Rightarrow> string \<Rightarrow> string option \<Rightarrow> py_error + tool_call list" where
  "direct_calc l op r =
     (case (OPERATOR_TO_TOOL op, Option.bind l py_float, Option.bind r py_float) of
        (Some name, Some x, Some y) \<Rightarrow> Inr [\<lparr>tc_name = name, tc_lhs = x, tc_rhs = y\<rparr>]
      | _ \<Rightarrow> Inl (CollaboratorError ''cannot build the tool call''))"

section \<open>Properties\<close>

subsection \<open>Span rewriter\<close>

text \<open>
  Claim C9. For an expression \<open>expr\<close>, a span \<open>[start, end)\<close> inside it and a replacement
  \<open>r\<close>, \<^const>\<open>replace_span\<close> returns \<open>expr[0:start] + r + expr[end:]\<close>, except that when the
  character just before \<open>start\<close> is an opening parenthesis and the character at \<open>end\<close> is
  a closing one, the span is first widened by one character on each side. Nothing else of
  the string changes, and no exception is raised.
\<close>

theorem replace_span_spec:
  assumes "0 \<le> start" and "start \<le> end" and "end \<le> int (length expr)"
  shows "replace_span expr [start, end] r =
     Inr (if 0 < start \<and> end < int (length expr) \<and>
             expr ! (nat start - 1) = CHR ''('' \<and> expr ! nat end = CHR '')''
          then take (nat start - 1) expr @ r @ drop (nat end + 1) expr
          else take (nat start) expr @ r @ drop (nat end) expr)"
  using assms
  by (auto simp add: replace_span_def py_index_def slice_to_def slice_from_def Let_def
      nat_diff_distrib nat_add_distrib)

theorem replace_span_spec_witness:
  "(0::int) \<le> 1 \<and> (1::int) \<le> 4 \<and> (4::int) \<le> int (length ''(3-1)*4/2'') \<and>
   replace_span ''(3-1)*4/2'' [1, 4] ''2'' = Inr ''2*4/2''"
  using replace_span_spec [of 1 4 "''(3-1)*4/2''" "''2''"] by simp

subsection \<open>Precedence resolver on tokenizer output\<close>

text \<open>
  Claim C10. The claim is that the precedence resolver never fails with an index out of
  range on a token list of the tokenizer. On the expression \<^verbatim>\<open>1+2*\<close> the tokenizer
  gives four tokens, the last one the operator \<^verbatim>\<open>*\<close>; the resolver selects it and the
  read \<^verbatim>\<open>tokens[best_op_idx + 1]\<close> raises IndexError.
\<close>

theorem resolver_index_error:
  "find_next_operation (parse_expression ''1+2*'') ''1+2*'' = Inl IndexError"
  by code_simp

subsection \<open>The run on the expression of the smoke test\<close>

text \<open>A judge that answers from a table: for each expression it knows, the operator, the
  operands, the span and the tool; it fails on any other expression.\<close>

definition scripted_judge ::
  "(string \<times> string \<times> string \<times> string \<times> int list \<times> string) list \<Rightarrow> string \<Rightarrow> judge_reply" where
  "scripted_judge script cur_expr =
     (case map_of script cur_expr of
        None \<Rightarrow> JudgeRaised ''no answer''
      | Some (op, l, r, sp, t) \<Rightarrow>
          JudgeResult \<lparr>d_operator = Some op, d_lhs = Some l, d_rhs = Some r, d_span = Some sp,
                       d_tool = Some t\<rparr>)"

text \<open>The answers that take the parenthesised subtraction before the multiplication
  next to it.\<close>

definition smoke_script :: "(string \<times> string \<times> string \<times> string \<times> int list \<times> string) list" where
  "smoke_script =
     [(''1+2*3+(3-1)*4/2'', ''*'', ''2'', ''3'', [2, 5], ''mul''),
      (''1+6+(3-1)*4/2'', ''-'', ''3'', ''1'', [5, 8], ''sub''),
      (''1+6+2*4/2'', ''*'', ''2'', ''4'', [4, 7], ''mul''),
      (''1+6+8/2'', ''/'', ''8'', ''2'', [4, 7], ''div''),
      (''1+6+4'', ''+'', ''1'', ''6'', [0, 3], ''add''),
      (''7+4'', ''+'', ''7'', ''4'', [0, 3], ''add'')]"

text \<open>The snapshot history and the error of a finished run.\<close>

definition history ::
  "(py_error + calc_state) option \<Rightarrow> (py_error + string list \<times> string option) option" where
  "history res = map_option (map_sum id (\<lambda>s. (expression s, error s))) res"

text \<open>
  Claim C2, as stated, with the precedence resolver as the decision step: the run on
  \<^verbatim>\<open>1+2*3+(3-1)*4/2\<close> does not end with \<^verbatim>\<open>11\<close>.
\<close>

theorem smoke_run_not_eleven:
  "\<not> (\<exists>s. invoke resolver_judge direct_calc (Bare ''1+2*3+(3-1)*4/2'') = Some (Inr s) \<and>
          last (expression s) = ''11'')"
proof -
  have "history (invoke resolver_judge direct_calc (Bare ''1+2*3+(3-1)*4/2'')) =
     Some (Inr ([''1+2*3+(3-1)*4/2'', ''1+6+(3-1)*4/2'', ''1+6+(3-4/2'', ''1+6+(3-2'',
                 ''7+(3-2'', ''10-2'', ''8''], None))"
    by code_simp
  then show ?thesis by (auto simp: history_def)
qed

text \<open>
  Claim C2, amended. The history of the run on \<^verbatim>\<open>1+2*3+(3-1)*4/2\<close> starts with that
  expression. With the precedence resolver as the decision step, which skips the
  parentheses, it ends with \<^verbatim>\<open>8\<close>; with a decision step that takes the parenthesised
  subtraction first, it ends with \<^verbatim>\<open>11\<close>. Both runs end without an error.
\<close>

theorem smoke_run_histories:
  "history (invoke resolver_judge direct_calc (Bare ''1+2*3+(3-1)*4/2'')) =
     Some (Inr ([''1+2*3+(3-1)*4/2'', ''1+6+(3-1)*4/2'', ''1+6+(3-4/2'', ''1+6+(3-2'',
                 ''7+(3-2'', ''10-2'', ''8''], None)) \<and>
   history (invoke (scripted_judge smoke_script) direct_calc (Bare ''1+2*3+(3-1)*4/2'')) =
     Some (Inr ([''1+2*3+(3-1)*4/2'', ''1+6+(3-1)*4/2'', ''1+6+2*4/2'', ''1+6+8/2'',
                 ''1+6+4'', ''7+4'', ''11''], None))"
  by code_simp

subsection \<open>Division by zero\<close>




subsection \<open>A decision step that makes no progress\<close>






subsection \<open>Start step\<close>



subsection \<open>A decision step that selects no operator\<close>

text \<open>A judge whose reply has no operator: the five fields are null.\<close>

definition silent_judge :: "string \<Rightarrow> judge_reply" where
  "silent_judge cur_expr =
     JudgeResult \<lparr>d_operator = None, d_lhs = None, d_rhs = None, d_span = None, d_tool = None\<rparr>"

text \<open>
  Claim C8. The claim is that a run never ends without an error while the last snapshot
  is not a single number. \<^verbatim>\<open>judge_node\<close> records an error only when the call raises;
  when the reply has no operator, \<^verbatim>\<open>route_after_judge\<close> goes to the end with the error
  unset. So does the run on \<^verbatim>\<open>1+2\<close> with the judge above, and the run on \<^verbatim>\<open>1 2\<close> with the
  precedence resolver, which returns empty on two numbers: both end with the history
  they started with and no error.
\<close>

theorem run_ends_without_error_on_unreduced_expression:
  "invoke silent_judge direct_calc (Bare ''1+2'') = Some (Inr (initial_state [''1+2''])) \<and>
   invoke resolver_judge direct_calc (Bare ''1 2'') = Some (Inr (initial_state [''1 2''])) \<and>
   \<not> is_single_number ''1+2'' \<and> \<not> is_single_number ''1 2'' \<and>
   error (initial_state [''1+2'']) = None \<and> error (initial_state [''1 2'']) = None"
  by code_simp

end
